theory Spec2Isabelle
  imports Main "HOL-Library.Multiset"
begin

section \<open>Documents, collections and the store handle\<close>

text \<open>
  The handlers of \<^verbatim>\<open>main.py\<close> work on MongoDB documents, which are Python dicts from
  field names to values. The values the handlers read and write are \<^verbatim>\<open>None\<close>, booleans,
  strings, lists of strings (a syllabus) and datetimes (a point in time, here a number).
\<close>

datatype val = VNone | VBool bool | VStr string | VStrs "string list" | VTime nat

type_synonym document = "string \<rightharpoonup> val"

text \<open>
  Every stored document carries an \<^verbatim>\<open>_id\<close> that the store generates, an ObjectId, kept
  here as its bytes (twelve for an identifier the store generates) and paired with the
  other fields.
  A collection lists its documents in natural (insertion) order. The store maps every
  collection name to a collection; a name never used maps to the empty one.
\<close>

type_synonym objectid = string
type_synonym stored = "objectid \<times> document"
type_synonym collection = "stored list"
type_synonym database = "string \<Rightarrow> collection"

text \<open>
  \<^verbatim>\<open>HTTPException(status_code, detail)\<close> is what a handler raises on purpose; any other
  exception that leaves a handler is a \<open>PyException\<close> with the name of its class.
\<close>

datatype exn = HTTPException nat string | PyException string

text \<open>
  A Python \<^verbatim>\<open>str\<close> is kept as the list of the bytes of its UTF-8 encoding, so two strings
  are equal exactly when their lists are.

  What a handler takes from its surroundings: whether the import of
  \<^verbatim>\<open>bson.objectid.ObjectId\<close> succeeded (lines 8 to 12), \<^verbatim>\<open>ADMIN_PASSWORD\<close> (line 29), and
  the two methods \<^verbatim>\<open>str.strip\<close> and \<^verbatim>\<open>str.upper\<close> of the Python runtime. The two methods
  follow the Unicode tables of the interpreter, which are no part of this repository: the
  handlers take them as they are given, and nothing is assumed about them.
\<close>

record env =
  ObjectId_imported :: bool
  ADMIN_PASSWORD :: string
  str_strip :: "string \<Rightarrow> string"
  str_upper :: "string \<Rightarrow> string"

subsection \<open>Python values\<close>

text \<open>\<^verbatim>\<open>d.get(k)\<close>: the value under \<open>k\<close>, or \<^verbatim>\<open>None\<close> when the key is missing.\<close>

definition dict_get :: "document \<Rightarrow> string \<Rightarrow> val" where
  "dict_get d k = (case d k of None \<Rightarrow> VNone | Some v \<Rightarrow> v)"

text \<open>\<^verbatim>\<open>bool(v)\<close>: Python's truth value.\<close>

fun truthy :: "val \<Rightarrow> bool" where
  "truthy VNone = False"
| "truthy (VBool b) = b"
| "truthy (VStr s) = (s \<noteq> [])"
| "truthy (VStrs xs) = (xs \<noteq> [])"
| "truthy (VTime t) = True"

text \<open>\<^verbatim>\<open>s.strip().upper()\<close>, the normal form of a roll number (lines 194, 250, 261, 295).\<close>

definition normalise :: "env \<Rightarrow> string \<Rightarrow> string" where
  "normalise e s = str_upper e (str_strip e s)"

subsection \<open>ObjectIds and their strings\<close>

text \<open>
  \<^verbatim>\<open>str(ObjectId)\<close> writes every byte of the identifier as two lower-case hexadecimal
  digits.
\<close>

definition hex_digit :: "nat \<Rightarrow> char" where
  "hex_digit k = (if k < 10 then char_of (48 + k) else char_of (87 + k))"

definition hex_byte :: "char \<Rightarrow> string" where
  "hex_byte c = [hex_digit ((of_char c :: nat) div 16), hex_digit ((of_char c :: nat) mod 16)]"

definition str_oid :: "objectid \<Rightarrow> string" where
  "str_oid i = concat (map hex_byte i)"

text \<open>
  \<^verbatim>\<open>ObjectId(s)\<close> on a string: a string of exactly 24 characters is handed to
  \<^verbatim>\<open>bytes.fromhex\<close>, any other string is refused. \<^verbatim>\<open>bytes.fromhex\<close> reads pairs of
  hexadecimal digits of either case, skips ASCII white space (code points 9 to 13 and 32)
  in front of a pair and at the end, and refuses everything else, a pair broken by white
  space and a character outside ASCII included. A string of 24 hexadecimal digits gives
  the twelve bytes of an identifier; a string of 24 characters with white space among the
  pairs gives fewer bytes, which is the identifier of no stored document.
\<close>

definition hex_val :: "char \<Rightarrow> nat option" where
  "hex_val c =
     (let k = (of_char c :: nat) in
      if 48 \<le> k \<and> k \<le> 57 then Some (k - 48)
      else if 97 \<le> k \<and> k \<le> 102 then Some (k - 87)
      else if 65 \<le> k \<and> k \<le> 70 then Some (k - 55)
      else None)"

definition hex_space :: "char \<Rightarrow> bool" where
  "hex_space c = (let k = (of_char c :: nat) in (9 \<le> k \<and> k \<le> 13) \<or> k = 32)"

fun fromhex :: "string \<Rightarrow> string option" where
  "fromhex [] = Some []"
| "fromhex [c] = (if hex_space c then Some [] else None)"
| "fromhex (c # c' # cs) =
     (if hex_space c then fromhex (c' # cs)
      else (case hex_val c of
              None \<Rightarrow> None
            | Some hi \<Rightarrow>
                (case hex_val c' of
                   None \<Rightarrow> None
                 | Some lo \<Rightarrow>
                     (case fromhex cs of
                        None \<Rightarrow> None
                      | Some bs \<Rightarrow> Some (char_of (16 * hi + lo) # bs)))))"

definition ObjectId :: "string \<Rightarrow> objectid option" where
  "ObjectId s = (if length s = 24 then fromhex s else None)"

text \<open>\<^verbatim>\<open>oid\<close>, lines 69 to 75.\<close>

definition oid :: "env \<Rightarrow> string \<Rightarrow> exn + objectid" where
  "oid e s =
     (if \<not> ObjectId_imported e then Inl (HTTPException 503 ''Database ID handling unavailable'')
      else case ObjectId s of
             Some i \<Rightarrow> Inr i
           | None \<Rightarrow> Inl (HTTPException 400 ''Invalid ID''))"

subsection \<open>Operations of the driver on one collection\<close>

text \<open>
  A query is a predicate on stored documents. \<^verbatim>\<open>{"k": v}\<close> selects the documents whose
  field \<open>k\<close> equals \<open>v\<close> (a missing field equals \<^verbatim>\<open>None\<close>) or is a list that holds
  \<open>v\<close>; \<^verbatim>\<open>{"_id": i}\<close> selects the document with that identifier, \<^verbatim>\<open>{}\<close> every
  document.
\<close>

fun value_matches :: "val \<Rightarrow> val \<Rightarrow> bool" where
  "value_matches (VStrs xs) (VStr s) = (s \<in> set xs)"
| "value_matches stored_value v = (stored_value = v)"

definition field_eq :: "string \<Rightarrow> val \<Rightarrow> stored \<Rightarrow> bool" where
  "field_eq k v sd = value_matches (dict_get (snd sd) k) v"

definition id_eq :: "objectid \<Rightarrow> stored \<Rightarrow> bool" where
  "id_eq i sd = (fst sd = i)"

definition find_one :: "collection \<Rightarrow> (stored \<Rightarrow> bool) \<Rightarrow> stored option" where
  "find_one c q = List.find q c"

definition find_all :: "collection \<Rightarrow> (stored \<Rightarrow> bool) \<Rightarrow> stored list" where
  "find_all c q = filter q c"

text \<open>
  \<^verbatim>\<open>update_one(filter, {"$set": patch})\<close> changes the first matching document and reports
  how many matched (0 or 1).
\<close>

fun update_one :: "collection \<Rightarrow> (stored \<Rightarrow> bool) \<Rightarrow> (string \<times> val) list \<Rightarrow> nat \<times> collection" where
  "update_one [] q patch = (0, [])"
| "update_one (sd # c) q patch =
     (if q sd then (1, (fst sd, fold (\<lambda>(k, v) d. d(k \<mapsto> v)) patch (snd sd)) # c)
      else (case update_one c q patch of (n, c') \<Rightarrow> (n, sd # c')))"

text \<open>\<^verbatim>\<open>delete_one(filter)\<close> removes the first matching document and reports how many it removed.\<close>

fun delete_one :: "collection \<Rightarrow> (stored \<Rightarrow> bool) \<Rightarrow> nat \<times> collection" where
  "delete_one [] q = (0, [])"
| "delete_one (sd # c) q =
     (if q sd then (1, c)
      else (case delete_one c q of (n, c') \<Rightarrow> (n, sd # c')))"

subsection \<open>The adapter of \<^verbatim>\<open>database.py\<close>\<close>

text \<open>
  \<^verbatim>\<open>main.py\<close> imports \<^verbatim>\<open>create_document\<close> and \<^verbatim>\<open>get_documents\<close> from the module
  \<^verbatim>\<open>database\<close>. A handler reaches the insert only through \<^verbatim>\<open>create_document\<close>; the
  handlers below take it as an argument. It returns the new identifier as a string together
  with the store after the insert, or raises and leaves the store as it was.
\<close>

type_synonym inserter = "string \<Rightarrow> document \<Rightarrow> database \<Rightarrow> exn + (string \<times> database)"

text \<open>
  Modelled from the spec: the adapter's \<^verbatim>\<open>insert(collection, document) -> id\<close> of section 4.1,
  whose source \<^verbatim>\<open>database.py\<close> is missing. It appends the document to the named collection
  under a new identifier of twelve bytes (the number after the largest one of the
  collection, most significant byte first) and returns that identifier as a string.
\<close>

fun be_bytes :: "nat \<Rightarrow> nat \<Rightarrow> string" where
  "be_bytes 0 n = []"
| "be_bytes (Suc k) n = be_bytes k (n div 256) @ [char_of (n mod 256)]"

definition be_value :: "string \<Rightarrow> nat" where
  "be_value bs = foldl (\<lambda>a c. 256 * a + of_char c) 0 bs"

definition fresh_id :: "collection \<Rightarrow> objectid" where
  "fresh_id c = be_bytes 12 (Suc (fold max (map (\<lambda>sd. be_value (fst sd)) c) 0))"

definition create_document :: inserter where
  "create_document name data d =
     (let i = fresh_id (d name) in Inr (str_oid i, d(name := d name @ [(i, data)])))"

text \<open>
  Modelled from the spec: the adapter's \<^verbatim>\<open>find_many(collection, filter, sort?)\<close> of
  section 4.1, called as \<^verbatim>\<open>get_documents("subject")\<close> with no filter: every document of
  the collection.
\<close>

definition get_documents :: "database \<Rightarrow> string \<Rightarrow> stored list" where
  "get_documents d name = d name"

text \<open>
  \<^verbatim>\<open>d["id"] = str(d.pop("_id"))\<close>: the document as a response shows it, the identifier
  under \<^verbatim>\<open>id\<close> as a string.
\<close>

definition public :: "stored \<Rightarrow> document" where
  "public sd = (snd sd)(''id'' \<mapsto> VStr (str_oid (fst sd)))"

section \<open>Handlers\<close>

text \<open>
  A handler takes the store handle \<^verbatim>\<open>db\<close> (\<open>None\<close> when no connection is configured) and
  returns what it answers, or the exception it raises, together with the store handle
  afterwards.
\<close>

text \<open>\<^verbatim>\<open>require_db\<close>, lines 78 to 80.\<close>

definition require_db :: "database option \<Rightarrow> exn + database" where
  "require_db db =
     (case db of
        None \<Rightarrow> Inl (HTTPException 503
          ''Database not configured. Please set DATABASE_URL and DATABASE_NAME.'')
      | Some d \<Rightarrow> Inr d)"

text \<open>An optional string of a request, as the value the document holds.\<close>

definition opt_str :: "string option \<Rightarrow> val" where
  "opt_str x = (case x of None \<Rightarrow> VNone | Some s \<Rightarrow> VStr s)"

text \<open>
  \<^verbatim>\<open>login\<close>, lines 191 to 214. Lines 195 to 199 resolve the student record: the stored one,
  or the one created at the first login, read back by its identifier (by its roll number
  when \<^verbatim>\<open>ObjectId\<close> was not imported).
\<close>

definition new_student :: "string \<Rightarrow> document" where
  "new_student roll =
     [''roll_number'' \<mapsto> VStr roll, ''name'' \<mapsto> VNone,
      ''is_admin'' \<mapsto> VBool False, ''is_active'' \<mapsto> VBool True]"

definition login_resolve ::
  "inserter \<Rightarrow> env \<Rightarrow> database \<Rightarrow> string \<Rightarrow> (exn + stored option) \<times> database" where
  "login_resolve cd e d roll =
     (case find_one (d ''student'') (field_eq ''roll_number'' (VStr roll)) of
        Some stu \<Rightarrow> (Inr (Some stu), d)
      | None \<Rightarrow>
          (case cd ''student'' (new_student roll) d of
             Inl x \<Rightarrow> (Inl x, d)
           | Inr (sid, d') \<Rightarrow>
               if ObjectId_imported e
               then (case oid e sid of
                       Inl x \<Rightarrow> (Inl x, d')
                     | Inr i \<Rightarrow> (Inr (find_one (d' ''student'') (id_eq i)), d'))
               else (Inr (find_one (d' ''student'') (field_eq ''roll_number'' (VStr roll))), d')))"

definition login_response :: "string \<Rightarrow> document \<Rightarrow> string \<Rightarrow> bool \<Rightarrow> document" where
  "login_response roll stu role is_admin =
     [''roll_number'' \<mapsto> VStr roll, ''name'' \<mapsto> dict_get stu ''name'',
      ''role'' \<mapsto> VStr role, ''is_admin'' \<mapsto> VBool is_admin]"

definition login ::
  "inserter \<Rightarrow> env \<Rightarrow> database option \<Rightarrow> string \<Rightarrow> string option
     \<Rightarrow> (exn + document) \<times> database option" where
  "login cd e db roll_number password =
     (case require_db db of
        Inl x \<Rightarrow> (Inl x, db)
      | Inr d \<Rightarrow>
          (let roll = normalise e roll_number in
           case login_resolve cd e d roll of
             (Inl x, d') \<Rightarrow> (Inl x, Some d')
           | (Inr None, d') \<Rightarrow> (Inl (PyException ''AttributeError''), Some d')
           | (Inr (Some stu), d') \<Rightarrow>
               (let is_admin = truthy (dict_get (snd stu) ''is_admin'') in
                if is_admin
                then (if password \<noteq> Some (ADMIN_PASSWORD e)
                      then (Inl (HTTPException 401 ''Admin password required or incorrect''), Some d')
                      else (Inr (login_response roll (snd stu) ''admin'' is_admin), Some d'))
                else (Inr (login_response roll (snd stu) ''student'' is_admin), Some d'))))"

text \<open>
  The created document read back, lines 236, 276 and 313: by its identifier, or by the
  fallback query when \<^verbatim>\<open>ObjectId\<close> was not imported; then its \<^verbatim>\<open>_id\<close> is popped, which
  raises on \<^verbatim>\<open>None\<close>.
\<close>

definition read_back ::
  "env \<Rightarrow> collection \<Rightarrow> string \<Rightarrow> (stored \<Rightarrow> bool) \<Rightarrow> exn + document" where
  "read_back e c sid fallback =
     (if ObjectId_imported e
      then (case oid e sid of
              Inl x \<Rightarrow> Inl x
            | Inr i \<Rightarrow>
                (case find_one c (id_eq i) of
                   None \<Rightarrow> Inl (PyException ''AttributeError'')
                 | Some doc \<Rightarrow> Inr (public doc)))
      else (case find_one c fallback of
              None \<Rightarrow> Inl (PyException ''AttributeError'')
            | Some doc \<Rightarrow> Inr (public doc)))"

text \<open>\<^verbatim>\<open>list_subjects\<close>, lines 220 to 227.\<close>

definition list_subjects :: "database option \<Rightarrow> (exn + document list) \<times> database option" where
  "list_subjects db =
     (case db of
        None \<Rightarrow> (Inr [], db)
      | Some d \<Rightarrow> (Inr (map public (get_documents d ''subject'')), db))"

text \<open>
  \<^verbatim>\<open>create_subject\<close>, lines 230 to 238; \<^verbatim>\<open>sub.model_dump()\<close> is the dict of the four
  fields of \<^verbatim>\<open>SubjectCreate\<close>.
\<close>

definition subject_dump :: "string \<Rightarrow> string \<Rightarrow> string \<Rightarrow> string list option \<Rightarrow> document" where
  "subject_dump code acronym title syllabus =
     [''code'' \<mapsto> VStr code, ''acronym'' \<mapsto> VStr acronym, ''title'' \<mapsto> VStr title,
      ''syllabus'' \<mapsto> (case syllabus of None \<Rightarrow> VNone | Some xs \<Rightarrow> VStrs xs)]"

definition create_subject ::
  "inserter \<Rightarrow> env \<Rightarrow> database option \<Rightarrow> string \<Rightarrow> string \<Rightarrow> string \<Rightarrow> string list option
     \<Rightarrow> (exn + document) \<times> database option" where
  "create_subject cd e db code acronym title syllabus =
     (case require_db db of
        Inl x \<Rightarrow> (Inl x, db)
      | Inr d \<Rightarrow>
          (case find_one (d ''subject'') (field_eq ''code'' (VStr code)) of
             Some found \<Rightarrow> (Inl (HTTPException 400 ''Subject code exists''), Some d)
           | None \<Rightarrow>
               (case cd ''subject'' (subject_dump code acronym title syllabus) d of
                  Inl x \<Rightarrow> (Inl x, Some d)
                | Inr (sid, d') \<Rightarrow>
                    (read_back e (d' ''subject'') sid (field_eq ''code'' (VStr code)), Some d'))))"

text \<open>\<^verbatim>\<open>list_presentations\<close>, lines 244 to 254.\<close>

definition list_presentations ::
  "env \<Rightarrow> database option \<Rightarrow> string option \<Rightarrow> (exn + document list) \<times> database option" where
  "list_presentations e db roll_number =
     (case db of
        None \<Rightarrow> (Inr [], db)
      | Some d \<Rightarrow>
          (let q = (case roll_number of
                      None \<Rightarrow> (\<lambda>sd. True)
                    | Some r \<Rightarrow>
                        if r = [] then (\<lambda>sd. True)
                        else (\<lambda>sd. field_eq ''assigned_to'' VNone sd
                                  \<or> field_eq ''assigned_to'' (VStr (normalise e r)) sd))
           in (Inr (map public (find_all (d ''presentation'') q)), db)))"

text \<open>\<^verbatim>\<open>my_presentations\<close>, lines 257 to 269.\<close>

record my_result =
  upcoming :: "document list"
  completed :: "document list"

definition my_presentations ::
  "env \<Rightarrow> database option \<Rightarrow> string \<Rightarrow> (exn + my_result) \<times> database option" where
  "my_presentations e db roll_number =
     (case db of
        None \<Rightarrow> (Inr \<lparr>upcoming = [], completed = []\<rparr>, db)
      | Some d \<Rightarrow>
          (let roll = normalise e roll_number;
               docs = map public (find_all (d ''presentation'') (field_eq ''assigned_to'' (VStr roll)))
           in (Inr \<lparr>upcoming = filter (\<lambda>doc. dict_get doc ''status'' \<noteq> VStr ''completed'') docs,
                    completed = filter (\<lambda>doc. dict_get doc ''status'' = VStr ''completed'') docs\<rparr>,
               db)))"

text \<open>
  \<^verbatim>\<open>create_presentation\<close>, lines 272 to 278; \<^verbatim>\<open>p.model_dump()\<close> is the dict of the six
  fields of \<^verbatim>\<open>PresentationCreate\<close>, which has no \<^verbatim>\<open>status\<close>.
\<close>

definition presentation_dump ::
  "string \<Rightarrow> string \<Rightarrow> string \<Rightarrow> string option \<Rightarrow> nat option \<Rightarrow> string option \<Rightarrow> document" where
  "presentation_dump subject_code subject_acronym topic assigned_to due_date submission_link =
     [''subject_code'' \<mapsto> VStr subject_code, ''subject_acronym'' \<mapsto> VStr subject_acronym,
      ''topic'' \<mapsto> VStr topic, ''assigned_to'' \<mapsto> opt_str assigned_to,
      ''due_date'' \<mapsto> (case due_date of None \<Rightarrow> VNone | Some t \<Rightarrow> VTime t),
      ''submission_link'' \<mapsto> opt_str submission_link]"

definition create_presentation ::
  "inserter \<Rightarrow> env \<Rightarrow> database option \<Rightarrow> string \<Rightarrow> string \<Rightarrow> string \<Rightarrow> string option
     \<Rightarrow> nat option \<Rightarrow> string option \<Rightarrow> (exn + document) \<times> database option" where
  "create_presentation cd e db subject_code subject_acronym topic assigned_to due_date submission_link =
     (case require_db db of
        Inl x \<Rightarrow> (Inl x, db)
      | Inr d \<Rightarrow>
          (case cd ''presentation''
                  (presentation_dump subject_code subject_acronym topic assigned_to due_date
                     submission_link) d of
             Inl x \<Rightarrow> (Inl x, Some d)
           | Inr (pid, d') \<Rightarrow>
               (read_back e (d' ''presentation'') pid
                  (\<lambda>sd. field_eq ''topic'' (VStr topic) sd
                       \<and> field_eq ''subject_code'' (VStr subject_code) sd),
                Some d')))"

text \<open>
  The update of one field of a presentation and the answer, shared by lines 284 to 289 and
  298 to 303: the identifier is parsed, the first matching document is patched with the
  field and \<^verbatim>\<open>updated_at\<close>, and the document is read again.
\<close>

definition patch_presentation ::
  "env \<Rightarrow> database \<Rightarrow> string \<Rightarrow> string \<Rightarrow> val \<Rightarrow> nat \<Rightarrow> (exn + document) \<times> database option" where
  "patch_presentation e d presentation_id field v now =
     (case oid e presentation_id of
        Inl x \<Rightarrow> (Inl x, Some d)
      | Inr i \<Rightarrow>
          (case update_one (d ''presentation'') (id_eq i) [(field, v), (''updated_at'', VTime now)] of
             (matched_count, c') \<Rightarrow>
               (let d' = d(''presentation'' := c') in
                if matched_count = 0
                then (Inl (HTTPException 404 ''Presentation not found''), Some d')
                else (case find_one (d' ''presentation'') (id_eq i) of
                        None \<Rightarrow> (Inl (PyException ''AttributeError''), Some d')
                      | Some doc \<Rightarrow> (Inr (public doc), Some d')))))"

text \<open>
  \<^verbatim>\<open>update_presentation_status\<close>, lines 281 to 289. The request's \<^verbatim>\<open>status\<close> is one of
  three literals.
\<close>

datatype status = Upcoming | Completed | Revoked

fun status_str :: "status \<Rightarrow> string" where
  "status_str Upcoming = ''upcoming''"
| "status_str Completed = ''completed''"
| "status_str Revoked = ''revoked''"

definition update_presentation_status ::
  "env \<Rightarrow> database option \<Rightarrow> string \<Rightarrow> status \<Rightarrow> nat \<Rightarrow> (exn + document) \<times> database option" where
  "update_presentation_status e db presentation_id st now =
     (case require_db db of
        Inl x \<Rightarrow> (Inl x, db)
      | Inr d \<Rightarrow> patch_presentation e d presentation_id ''status'' (VStr (status_str st)) now)"

text \<open>\<^verbatim>\<open>assign_topic\<close>, lines 292 to 303.\<close>

definition assign_topic ::
  "env \<Rightarrow> database option \<Rightarrow> string \<Rightarrow> string \<Rightarrow> nat \<Rightarrow> (exn + document) \<times> database option" where
  "assign_topic e db presentation_id roll_number now =
     (case require_db db of
        Inl x \<Rightarrow> (Inl x, db)
      | Inr d \<Rightarrow>
          (let roll = normalise e roll_number in
           case find_one (d ''student'') (field_eq ''roll_number'' (VStr roll)) of
             None \<Rightarrow> (Inl (HTTPException 404 ''Student not found''), Some d)
           | Some stu \<Rightarrow> patch_presentation e d presentation_id ''assigned_to'' (VStr roll) now))"

text \<open>
  \<^verbatim>\<open>create_message\<close>, lines 309 to 315. The request's \<^verbatim>\<open>type\<close> is one of two literals.
\<close>

datatype message_type = Message | Alert

fun message_type_str :: "message_type \<Rightarrow> string" where
  "message_type_str Message = ''message''"
| "message_type_str Alert = ''alert''"

definition message_dump :: "message_type \<Rightarrow> string \<Rightarrow> string \<Rightarrow> string option \<Rightarrow> document" where
  "message_dump ty title body created_by =
     [''type'' \<mapsto> VStr (message_type_str ty), ''title'' \<mapsto> VStr title, ''body'' \<mapsto> VStr body,
      ''created_by'' \<mapsto> opt_str created_by]"

definition create_message ::
  "inserter \<Rightarrow> env \<Rightarrow> database option \<Rightarrow> message_type \<Rightarrow> string \<Rightarrow> string \<Rightarrow> string option
     \<Rightarrow> (exn + document) \<times> database option" where
  "create_message cd e db ty title body created_by =
     (case require_db db of
        Inl x \<Rightarrow> (Inl x, db)
      | Inr d \<Rightarrow>
          (case cd ''message'' (message_dump ty title body created_by) d of
             Inl x \<Rightarrow> (Inl x, Some d)
           | Inr (mid, d') \<Rightarrow>
               (read_back e (d' ''message'') mid
                  (\<lambda>sd. field_eq ''title'' (VStr title) sd \<and> field_eq ''body'' (VStr body) sd),
                Some d')))"

text \<open>
  \<^verbatim>\<open>list_messages\<close>, lines 318 to 325: the messages by \<^verbatim>\<open>created_at\<close>, newest first. A
  document with no datetime under \<^verbatim>\<open>created_at\<close> sorts after every one that has it, and
  documents with the same \<^verbatim>\<open>created_at\<close> stay in their natural order.
\<close>

definition created_at_key :: "stored \<Rightarrow> nat" where
  "created_at_key sd = (case dict_get (snd sd) ''created_at'' of VTime t \<Rightarrow> Suc t | _ \<Rightarrow> 0)"

definition list_messages :: "database option \<Rightarrow> (exn + document list) \<times> database option" where
  "list_messages db =
     (case db of
        None \<Rightarrow> (Inr [], db)
      | Some d \<Rightarrow> (Inr (map public (rev (sort_key created_at_key (rev (d ''message''))))), db))"

text \<open>\<^verbatim>\<open>delete_message\<close>, lines 328 to 334.\<close>

definition delete_message ::
  "env \<Rightarrow> database option \<Rightarrow> string \<Rightarrow> (exn + document) \<times> database option" where
  "delete_message e db message_id =
     (case require_db db of
        Inl x \<Rightarrow> (Inl x, db)
      | Inr d \<Rightarrow>
          (case oid e message_id of
             Inl x \<Rightarrow> (Inl x, Some d)
           | Inr i \<Rightarrow>
               (case delete_one (d ''message'') (id_eq i) of
                  (deleted_count, c') \<Rightarrow>
                    if deleted_count = 0
                    then (Inl (HTTPException 404 ''Message not found''), Some (d(''message'' := c')))
                    else (Inr [''deleted'' \<mapsto> VBool True], Some (d(''message'' := c'))))))"

text \<open>\<^verbatim>\<open>sync_presentations\<close>, lines 340 to 351.\<close>

definition synced_meta :: document where
  "synced_meta = [''key'' \<mapsto> VStr ''synced'', ''value'' \<mapsto> VStr ''true'']"

definition sync_presentations ::
  "inserter \<Rightarrow> database option \<Rightarrow> (exn + document) \<times> database option" where
  "sync_presentations cd db =
     (case db of
        None \<Rightarrow>
          (Inr [''synced'' \<mapsto> VBool False, ''message'' \<mapsto> VStr ''Database not configured''], None)
      | Some d \<Rightarrow>
          (case find_one (d ''meta'') (field_eq ''key'' (VStr ''synced'')) of
             Some meta \<Rightarrow>
               if dict_get (snd meta) ''value'' = VStr ''true''
               then (Inr [''synced'' \<mapsto> VBool True, ''message'' \<mapsto> VStr ''Already synced''], Some d)
               else (case cd ''meta'' synced_meta d of
                       Inl e \<Rightarrow> (Inr [''synced'' \<mapsto> VBool True], Some d)
                     | Inr (i, d') \<Rightarrow> (Inr [''synced'' \<mapsto> VBool True], Some d'))
           | None \<Rightarrow>
               (case cd ''meta'' synced_meta d of
                  Inl e \<Rightarrow> (Inr [''synced'' \<mapsto> VBool True], Some d)
                | Inr (i, d') \<Rightarrow> (Inr [''synced'' \<mapsto> VBool True], Some d'))))"

subsection \<open>Notions the properties use\<close>

text \<open>The flag as \<^verbatim>\<open>sync_presentations\<close> reads it: the first Meta record with key
  \<^verbatim>\<open>synced\<close> exists and holds \<^verbatim>\<open>"true"\<close>.\<close>

definition already_synced :: "database \<Rightarrow> bool" where
  "already_synced d =
     (case find_one (d ''meta'') (field_eq ''key'' (VStr ''synced'')) of
        Some meta \<Rightarrow> dict_get (snd meta) ''value'' = VStr ''true''
      | None \<Rightarrow> False)"

text \<open>The stored students with a given roll number, as the query of lines 195 and 296 selects them.\<close>

definition students_with :: "database \<Rightarrow> string \<Rightarrow> stored list" where
  "students_with d roll = find_all (d ''student'') (field_eq ''roll_number'' (VStr roll))"

text \<open>What \<^verbatim>\<open>require_db\<close> raises.\<close>

definition unavailable :: exn where
  "unavailable = HTTPException 503
     ''Database not configured. Please set DATABASE_URL and DATABASE_NAME.''"

subsection \<open>A small store\<close>

text \<open>
  A configuration and a store on which the properties below are evaluated: the seeded
  administrator and one student, one subject, five presentations of which four are
  assigned to \<open>A1\<close> (one of them created with no \<^verbatim>\<open>status\<close>), and two messages.
\<close>

text \<open>
  The two string methods on strings of 7-bit characters, where they need no table:
  \<^verbatim>\<open>strip\<close> removes the leading and trailing white space (code points 9 to 13 and 28 to
  32), \<^verbatim>\<open>upper\<close> maps \<open>a\<close> to \<open>z\<close> onto \<open>A\<close> to \<open>Z\<close>. They stand for the methods in the
  configuration below, which is applied to 7-bit strings only.
\<close>

definition ascii_space :: "char \<Rightarrow> bool" where
  "ascii_space c = (let k = (of_char c :: nat) in (9 \<le> k \<and> k \<le> 13) \<or> (28 \<le> k \<and> k \<le> 32))"

definition ascii_strip :: "string \<Rightarrow> string" where
  "ascii_strip s = rev (dropWhile ascii_space (rev (dropWhile ascii_space s)))"

definition ascii_upper_char :: "char \<Rightarrow> char" where
  "ascii_upper_char c =
     (let k = (of_char c :: nat) in if 97 \<le> k \<and> k \<le> 122 then char_of (k - 32) else c)"

definition ascii_upper :: "string \<Rightarrow> string" where
  "ascii_upper s = map ascii_upper_char s"

definition demo_env :: env where
  "demo_env = \<lparr>ObjectId_imported = True, ADMIN_PASSWORD = ''admin123'',
                str_strip = ascii_strip, str_upper = ascii_upper\<rparr>"

text \<open>The identifier whose twelve bytes denote the number \<open>n\<close>.\<close>

definition demo_id :: "nat \<Rightarrow> objectid" where
  "demo_id n = be_bytes 12 n"

definition demo_presentation :: "string \<Rightarrow> val \<Rightarrow> val \<Rightarrow> document" where
  "demo_presentation topic assigned st =
     [''subject_code'' \<mapsto> VStr ''CS101'', ''subject_acronym'' \<mapsto> VStr ''CS'',
      ''topic'' \<mapsto> VStr topic, ''assigned_to'' \<mapsto> assigned, ''status'' \<mapsto> st]"

definition demo_db :: database where
  "demo_db = (\<lambda>n. [])
     (''student'' :=
        [(demo_id 1, [''roll_number'' \<mapsto> VStr ''ADMIN'', ''name'' \<mapsto> VStr ''Administrator'',
              ''is_admin'' \<mapsto> VBool True, ''is_active'' \<mapsto> VBool True]),
         (demo_id 2, new_student ''A1'')],
      ''subject'' := [(demo_id 1, subject_dump ''CS101'' ''CS'' ''Computer Science Basics'' (Some [''Algorithms'']))],
      ''presentation'' :=
        [(demo_id 1, demo_presentation ''Sorting Algorithms'' (VStr ''A1'') (VStr ''upcoming'')),
         (demo_id 2, demo_presentation ''Big-O Notation'' (VStr ''A1'') (VStr ''completed'')),
         (demo_id 3, demo_presentation ''Hash Tables'' (VStr ''A1'') (VStr ''revoked'')),
         (demo_id 4, presentation_dump ''CS101'' ''CS'' ''Heaps'' (Some ''A1'') None None),
         (demo_id 5, demo_presentation ''Tries'' VNone (VStr ''upcoming''))],
      ''message'' :=
        [(demo_id 10, message_dump Message ''Welcome'' ''Hello'' None),
         (demo_id 11, message_dump Alert ''Exam'' ''Monday'' (Some ''ADMIN''))])"

section \<open>Properties\<close>

subsection \<open>Auxiliary facts\<close>

lemma find_one_None: "find_one c q = None \<longleftrightarrow> (\<forall>sd \<in> set c. \<not> q sd)"
  by (auto simp: find_one_def find_None_iff)

lemma status_public: "dict_get (public sd) ''status'' = dict_get (snd sd) ''status''"
  by (simp add: public_def dict_get_def)

lemma my_presentations_Some:
  "my_presentations e (Some d) roll_number =
     (Inr \<lparr>upcoming = filter (\<lambda>doc. dict_get doc ''status'' \<noteq> VStr ''completed'')
               (map public (find_all (d ''presentation'')
                  (field_eq ''assigned_to'' (VStr (normalise e roll_number))))),
            completed = filter (\<lambda>doc. dict_get doc ''status'' = VStr ''completed'')
               (map public (find_all (d ''presentation'')
                  (field_eq ''assigned_to'' (VStr (normalise e roll_number)))))\<rparr>, Some d)"
  by (simp add: my_presentations_def Let_def)

lemma mset_filter_split: "mset (filter (\<lambda>x. \<not> P x) xs) + mset (filter P xs) = mset xs"
  by (induction xs) auto

lemma find_one_Some_ex: "sd \<in> set c \<Longrightarrow> q sd \<Longrightarrow> \<exists>sd'. find_one c q = Some sd'"
  by (cases "find_one c q") (auto simp: find_one_None)

lemma a1:
  "normalise demo_env ''a1 '' = ''A1''"
  by code_simp

lemma b2:
  "normalise demo_env '' b2 '' = ''B2''"
  by code_simp

lemma adm:
  "normalise demo_env ''admin'' = ''ADMIN''"
  by code_simp

lemma find_one_append_new:
  "find_one c q = None \<Longrightarrow> q sd \<Longrightarrow> find_one (c @ [sd]) q = Some sd"
  by (induction c) (auto simp: find_one_def)

lemma find_all_append_new:
  "find_one c q = None \<Longrightarrow> q sd \<Longrightarrow> find_all (c @ [sd]) q = [sd]"
  by (auto simp: find_all_def find_one_None filter_empty_conv)

lemma find_all_empty: "find_all c q = [] \<longleftrightarrow> find_one c q = None"
  by (auto simp: find_all_def find_one_None filter_empty_conv)

lemma login_first:
  assumes "find_one (d ''student'') (field_eq ''roll_number'' (VStr (normalise e roll_number))) = None"
  shows "snd (login create_document e (Some d) roll_number password)
    = Some (d(''student'' := d ''student''
         @ [(fresh_id (d ''student''), new_student (normalise e roll_number))]))"
  using assms
  by (simp add: login_def require_db_def login_resolve_def create_document_def Let_def
      split: sum.splits option.splits prod.splits)

lemma login_known:
  assumes "find_one (d ''student'') (field_eq ''roll_number'' (VStr (normalise e roll_number))) = Some stu"
  shows "snd (login cd e (Some d) roll_number password) = Some d"
  using assms
  by (simp add: login_def require_db_def login_resolve_def Let_def)

lemma new_student_roll: "field_eq ''roll_number'' (VStr roll) (i, new_student roll)"
  by (simp add: field_eq_def new_student_def dict_get_def)

lemma synced_meta_key: "field_eq ''key'' (VStr ''synced'') (i, synced_meta)"
  by (simp add: field_eq_def synced_meta_def dict_get_def)

lemma synced_meta_value: "dict_get synced_meta ''value'' = VStr ''true''"
  by (simp add: synced_meta_def dict_get_def)

lemma sync_when_synced:
  "already_synced d \<Longrightarrow> sync_presentations cd (Some d)
     = (Inr [''synced'' \<mapsto> VBool True, ''message'' \<mapsto> VStr ''Already synced''], Some d)"
  by (auto simp: already_synced_def sync_presentations_def split: option.splits)

lemma sync_when_not_synced:
  "\<not> already_synced d \<Longrightarrow> sync_presentations create_document (Some d)
     = (Inr [''synced'' \<mapsto> VBool True],
        Some (d(''meta'' := d ''meta'' @ [(fresh_id (d ''meta''), synced_meta)])))"
  by (auto simp: already_synced_def sync_presentations_def create_document_def Let_def
      split: option.splits)

lemma find_one_Some_mem: "find_one c q = Some sd \<Longrightarrow> sd \<in> set c \<and> q sd"
  by (auto simp: find_one_def find_Some_iff)

lemma already_synced_record:
  assumes "already_synced d"
  shows "\<exists>sd \<in> set (d ''meta''). field_eq ''key'' (VStr ''synced'') sd
           \<and> dict_get (snd sd) ''value'' = VStr ''true''"
proof -
  from assms obtain sd where f: "find_one (d ''meta'') (field_eq ''key'' (VStr ''synced'')) = Some sd"
    and v: "dict_get (snd sd) ''value'' = VStr ''true''"
    by (auto simp: already_synced_def split: option.splits)
  from find_one_Some_mem [OF f] v show ?thesis
    by (auto simp: field_eq_def)
qed

lemma already_synced_after_insert:
  assumes "find_one (d ''meta'') (field_eq ''key'' (VStr ''synced'')) = None"
  shows "already_synced (d(''meta'' := d ''meta'' @ [(i, synced_meta)]))"
  using find_one_append_new [OF assms synced_meta_key, of i]
  by (simp add: already_synced_def synced_meta_value)

lemma not_synced_no_record:
  assumes "\<not> already_synced d"
    and "\<forall>sd \<in> set (d ''meta''). field_eq ''key'' (VStr ''synced'') sd
            \<longrightarrow> dict_get (snd sd) ''value'' = VStr ''true''"
  shows "find_one (d ''meta'') (field_eq ''key'' (VStr ''synced'')) = None"
proof (cases "find_one (d ''meta'') (field_eq ''key'' (VStr ''synced''))")
  case None
  then show ?thesis .
next
  case (Some sd)
  from find_one_Some_mem [OF Some] assms(2) have "dict_get (snd sd) ''value'' = VStr ''true''"
    by (auto simp: field_eq_def)
  with Some assms(1) show ?thesis
    by (simp add: already_synced_def)
qed

lemma hex_val_digit: "k < 16 \<Longrightarrow> hex_val (hex_digit k) = Some k"
  by (auto simp: hex_val_def hex_digit_def Let_def)

lemma hex_digit_no_space: "k < 16 \<Longrightarrow> \<not> hex_space (hex_digit k)"
  by (auto simp: hex_space_def hex_digit_def Let_def)

lemma of_char_div16: "(of_char c :: nat) div 16 < 16"
proof -
  have "(of_char c :: nat) < 16 * 16"
    by simp
  then show ?thesis
    by (rule less_mult_imp_div_less)
qed

lemma char_of_hi_lo: "char_of (16 * ((of_char c :: nat) div 16) + (of_char c :: nat) mod 16) = c"
  by simp

lemma fromhex_hex_byte:
  "fromhex (hex_byte c @ rest) = (case fromhex rest of None \<Rightarrow> None | Some bs \<Rightarrow> Some (c # bs))"
  by (simp add: hex_byte_def hex_val_digit hex_digit_no_space of_char_div16 char_of_hi_lo
      del: of_char_mod_256 split: option.splits)

lemma fromhex_str_oid: "fromhex (str_oid i) = Some i"
  by (induction i) (simp_all add: str_oid_def fromhex_hex_byte)

lemma str_oid_inj:
  assumes "str_oid i = str_oid j"
  shows "i = j"
proof -
  have "Some i = fromhex (str_oid i)"
    by (simp only: fromhex_str_oid)
  also have "\<dots> = fromhex (str_oid j)"
    by (simp only: assms)
  also have "\<dots> = Some j"
    by (rule fromhex_str_oid)
  finally show ?thesis
    by (simp only: option.inject)
qed

lemma length_str_oid: "length (str_oid i) = 2 * length i"
  by (induction i) (simp_all add: str_oid_def hex_byte_def)

lemma ObjectId_str_oid: "length i = 12 \<Longrightarrow> ObjectId (str_oid i) = Some i"
  by (simp add: ObjectId_def length_str_oid fromhex_str_oid)

lemma delete_one_no_match: "\<forall>sd \<in> set c. \<not> q sd \<Longrightarrow> delete_one c q = (0, c)"
  by (induction c) auto

lemma delete_one_by_id:
  "distinct (map fst c) \<Longrightarrow> i \<in> fst ` set c \<Longrightarrow>
     delete_one c (id_eq i) = (1, filter (\<lambda>sd. fst sd \<noteq> i) c)"
proof (induction c)
  case Nil
  then show ?case by simp
next
  case (Cons sd c)
  show ?case
  proof (cases "fst sd = i")
    case True
    with Cons.prems have "\<forall>x \<in> set c. fst x \<noteq> i"
      by (auto simp: image_iff)
    then have "filter (\<lambda>sd. fst sd \<noteq> i) c = c"
      by (simp add: filter_id_conv)
    with True show ?thesis
      by (simp add: id_eq_def)
  next
    case False
    with Cons show ?thesis
      by (auto simp: id_eq_def)
  qed
qed

lemma public_id: "dict_get (public sd) ''id'' = VStr (str_oid (fst sd))"
  by (simp add: public_def dict_get_def)

lemma delete_message_parsed:
  assumes "ObjectId_imported e" and "ObjectId message_id = Some i"
  shows "delete_message e (Some d) message_id =
     (case delete_one (d ''message'') (id_eq i) of
        (deleted_count, c') \<Rightarrow>
          if deleted_count = 0
          then (Inl (HTTPException 404 ''Message not found''), Some (d(''message'' := c')))
          else (Inr [''deleted'' \<mapsto> VBool True], Some (d(''message'' := c'))))"
  using assms by (simp add: delete_message_def require_db_def oid_def)

lemma delete_message_malformed:
  assumes "ObjectId_imported e" and "ObjectId message_id = None"
  shows "delete_message e (Some d) message_id = (Inl (HTTPException 400 ''Invalid ID''), Some d)"
  using assms by (simp add: delete_message_def require_db_def oid_def)

lemma list_messages_Some:
  "list_messages (Some d)
     = (Inr (map public (rev (sort_key created_at_key (rev (d ''message''))))), Some d)"
  by (simp add: list_messages_def)

lemma nope: "ObjectId ''nope'' = None"
  by (simp add: ObjectId_def)

lemma demo_messages:
  "demo_db ''message'' =
        [(demo_id 10, message_dump Message ''Welcome'' ''Hello'' None),
         (demo_id 11, message_dump Alert ''Exam'' ''Monday'' (Some ''ADMIN''))]"
  by (simp add: demo_db_def)

lemma demo_ids:
  "demo_id 10 \<noteq> demo_id 11" "demo_id 11 \<noteq> demo_id 10"
  "demo_id 255 \<noteq> demo_id 10" "demo_id 255 \<noteq> demo_id 11"
  by code_simp+

lemma parse_0a: "ObjectId ''00000000000000000000000a'' = Some (demo_id 10)"
  by code_simp

lemma parse_ff: "ObjectId ''0000000000000000000000FF'' = Some (demo_id 255)"
  by code_simp

lemma str_10: "str_oid (demo_id 10) = ''00000000000000000000000a''"
  by code_simp

lemma str_11: "str_oid (demo_id 11) = ''00000000000000000000000b''"
  by code_simp


subsection \<open>The claims\<close>

text \<open>
  C10. When the flag is not yet set and the insert of the Meta record
  \<^verbatim>\<open>{key: "synced", value: "true"}\<close> raises, \<^verbatim>\<open>POST /api/admin/sync\<close> swallows the error and
  still answers \<^verbatim>\<open>{synced: true}\<close>, and the store is left as it was: the flag is not
  persisted, so the answer does not guarantee it.
\<close>

theorem sync_swallows_insert_error:
  assumes "\<not> already_synced d" and "cd ''meta'' synced_meta d = Inl e"
  shows "sync_presentations cd (Some d) = (Inr [''synced'' \<mapsto> VBool True], Some d)
    \<and> \<not> already_synced d"
  using assms
  by (cases "find_one (d ''meta'') (field_eq ''key'' (VStr ''synced''))")
     (simp_all add: sync_presentations_def already_synced_def)

theorem sync_swallows_insert_error_witness:
  "\<not> already_synced (\<lambda>n. [])
   \<and> (\<lambda>n data d. Inl (PyException ''ServerSelectionTimeoutError'')) ''meta'' synced_meta (\<lambda>n. [])
       = (Inl (PyException ''ServerSelectionTimeoutError'') :: exn + (string \<times> database))
   \<and> sync_presentations (\<lambda>n data d. Inl (PyException ''ServerSelectionTimeoutError'')) (Some (\<lambda>n. []))
       = (Inr [''synced'' \<mapsto> VBool True], Some (\<lambda>n. []))"
proof -
  have h: "\<not> already_synced (\<lambda>n. [])"
    by (simp add: already_synced_def find_one_def)
  show ?thesis
    using h sync_swallows_insert_error [OF h,
        of "\<lambda>n data d. Inl (PyException ''ServerSelectionTimeoutError'')"
           "PyException ''ServerSelectionTimeoutError''"]
    by simp
qed

text \<open>
  C3. An assign request whose roll number, trimmed and upper-cased, is the roll number of
  no stored student fails with 404 \<open>Student not found\<close>, whatever the presentation
  identifier is, and the store is left as it was: no presentation is modified. The check
  is made by the handler at assignment time.
\<close>

theorem assign_unknown_student_not_found:
  assumes "\<forall>sd \<in> set (d ''student'').
             \<not> field_eq ''roll_number'' (VStr (normalise e roll_number)) sd"
  shows "assign_topic e (Some d) presentation_id roll_number now
    = (Inl (HTTPException 404 ''Student not found''), Some d)"
proof -
  have "find_one (d ''student'') (field_eq ''roll_number'' (VStr (normalise e roll_number))) = None"
    using assms by (simp add: find_one_None)
  then show ?thesis
    by (simp add: assign_topic_def require_db_def)
qed

theorem assign_unknown_student_not_found_witness:
  "assign_topic demo_env (Some demo_db) ''000000000000000000000001'' '' b2 '' 7
     = (Inl (HTTPException 404 ''Student not found''), Some demo_db)"
proof -
  have "\<forall>sd \<in> set (demo_db ''student'').
          \<not> field_eq ''roll_number'' (VStr (normalise demo_env '' b2 '')) sd"
    by (simp add: b2 demo_db_def new_student_def dict_get_def field_eq_def)
  from assign_unknown_student_not_found [where d = demo_db and roll_number = "'' b2 ''", OF this]
  show ?thesis .
qed

text \<open>
  C4. \<^verbatim>\<open>GET /api/presentations/my\<close> answers with two lists that together hold the
  presentations assigned to the roll number, each as often as the query returned it; the
  lists share no document, and each stored presentation assigned to the roll number is
  in exactly one of them, in \<open>completed\<close> exactly when its status is \<^verbatim>\<open>"completed"\<close>.
\<close>

theorem my_presentations_partition:
  assumes "my_presentations e (Some d) roll_number = (res, db')"
  shows "\<exists>r. res = Inr r
    \<and> mset (upcoming r) + mset (completed r)
        = mset (map public (find_all (d ''presentation'')
                  (field_eq ''assigned_to'' (VStr (normalise e roll_number)))))
    \<and> set (upcoming r) \<inter> set (completed r) = {}
    \<and> (\<forall>sd \<in> set (d ''presentation'').
          field_eq ''assigned_to'' (VStr (normalise e roll_number)) sd \<longrightarrow>
            (public sd \<in> set (upcoming r)) \<noteq> (public sd \<in> set (completed r))
          \<and> (public sd \<in> set (completed r)) = (dict_get (snd sd) ''status'' = VStr ''completed''))"
proof -
  let ?docs = "map public (find_all (d ''presentation'')
                  (field_eq ''assigned_to'' (VStr (normalise e roll_number))))"
  let ?r = "\<lparr>upcoming = filter (\<lambda>doc. dict_get doc ''status'' \<noteq> VStr ''completed'') ?docs,
            completed = filter (\<lambda>doc. dict_get doc ''status'' = VStr ''completed'') ?docs\<rparr>"
  have res: "res = Inr ?r"
    using assms by (simp add: my_presentations_Some)
  have m: "mset (upcoming ?r) + mset (completed ?r) = mset ?docs"
    using mset_filter_split [of "\<lambda>doc. dict_get doc ''status'' = VStr ''completed''" ?docs] by simp
  have dj: "set (upcoming ?r) \<inter> set (completed ?r) = {}"
    by auto
  have mem: "public sd \<in> set ?docs"
    if "sd \<in> set (d ''presentation'')"
      and "field_eq ''assigned_to'' (VStr (normalise e roll_number)) sd" for sd
    using that by (simp add: find_all_def)
  have each: "(public sd \<in> set (upcoming ?r)) \<noteq> (public sd \<in> set (completed ?r))
      \<and> (public sd \<in> set (completed ?r)) = (dict_get (snd sd) ''status'' = VStr ''completed'')"
    if "sd \<in> set (d ''presentation'')"
      and "field_eq ''assigned_to'' (VStr (normalise e roll_number)) sd" for sd
    using mem [OF that] by (simp add: status_public)
  show ?thesis
    using res m dj each by blast
qed

theorem my_presentations_partition_witness:
  "\<exists>r. fst (my_presentations demo_env (Some demo_db) ''a1 '') = Inr r
     \<and> size (mset (upcoming r) + mset (completed r)) = 4
     \<and> (public (demo_id 3, demo_presentation ''Hash Tables'' (VStr ''A1'') (VStr ''revoked'')) \<in> set (upcoming r))
         \<noteq> (public (demo_id 3, demo_presentation ''Hash Tables'' (VStr ''A1'') (VStr ''revoked'')) \<in> set (completed r))"
proof -
  let ?sd = "(demo_id 3, demo_presentation ''Hash Tables'' (VStr ''A1'') (VStr ''revoked''))"
  obtain res db' where r: "my_presentations demo_env (Some demo_db) ''a1 '' = (res, db')"
    by (cases "my_presentations demo_env (Some demo_db) ''a1 ''")
  have p: "demo_db ''presentation'' =
        [(demo_id 1, demo_presentation ''Sorting Algorithms'' (VStr ''A1'') (VStr ''upcoming'')),
         (demo_id 2, demo_presentation ''Big-O Notation'' (VStr ''A1'') (VStr ''completed'')),
         (demo_id 3, demo_presentation ''Hash Tables'' (VStr ''A1'') (VStr ''revoked'')),
         (demo_id 4, presentation_dump ''CS101'' ''CS'' ''Heaps'' (Some ''A1'') None None),
         (demo_id 5, demo_presentation ''Tries'' VNone (VStr ''upcoming''))]"
    by (simp add: demo_db_def)
  have f: "find_all (demo_db ''presentation'') (field_eq ''assigned_to'' (VStr ''A1''))
      = [(demo_id 1, demo_presentation ''Sorting Algorithms'' (VStr ''A1'') (VStr ''upcoming'')),
         (demo_id 2, demo_presentation ''Big-O Notation'' (VStr ''A1'') (VStr ''completed'')),
         (demo_id 3, demo_presentation ''Hash Tables'' (VStr ''A1'') (VStr ''revoked'')),
         (demo_id 4, presentation_dump ''CS101'' ''CS'' ''Heaps'' (Some ''A1'') None None)]"
    by (simp add: p find_all_def field_eq_def demo_presentation_def presentation_dump_def
        dict_get_def opt_str_def)
  have mem: "?sd \<in> set (demo_db ''presentation'')"
    by (simp add: p)
  have asg: "field_eq ''assigned_to'' (VStr (normalise demo_env ''a1 '')) ?sd"
    by (simp add: a1 demo_presentation_def dict_get_def field_eq_def)
  from my_presentations_partition [where d = demo_db, OF r] obtain rr where
    rr: "res = Inr rr"
    and m: "mset (upcoming rr) + mset (completed rr)
        = mset (map public (find_all (demo_db ''presentation'')
                  (field_eq ''assigned_to'' (VStr (normalise demo_env ''a1 '')))))"
    and b: "\<forall>sd \<in> set (demo_db ''presentation'').
          field_eq ''assigned_to'' (VStr (normalise demo_env ''a1 '')) sd \<longrightarrow>
            (public sd \<in> set (upcoming rr)) \<noteq> (public sd \<in> set (completed rr))
          \<and> (public sd \<in> set (completed rr)) = (dict_get (snd sd) ''status'' = VStr ''completed'')"
    by blast
  have sz: "size (mset (upcoming rr) + mset (completed rr)) = 4"
    unfolding m a1 f by simp
  have one: "(public ?sd \<in> set (upcoming rr)) \<noteq> (public ?sd \<in> set (completed rr))"
    using bspec [OF b mem] asg by blast
  show ?thesis
    using rr sz one by (simp add: r)
qed

text \<open>
  C6. A create-subject request whose code is the code of a stored subject fails with 400
  \<open>Subject code exists\<close>, for every inserter, and the store is left as it was: nothing
  is inserted.
\<close>

theorem create_subject_duplicate_code:
  assumes "sd \<in> set (d ''subject'')" and "dict_get (snd sd) ''code'' = VStr code"
  shows "create_subject cd e (Some d) code acronym title syllabus
    = (Inl (HTTPException 400 ''Subject code exists''), Some d)"
proof -
  obtain found where "find_one (d ''subject'') (field_eq ''code'' (VStr code)) = Some found"
    using find_one_Some_ex [OF assms(1), of "field_eq ''code'' (VStr code)"] assms(2)
    by (auto simp: field_eq_def)
  then show ?thesis
    by (simp add: create_subject_def require_db_def)
qed

theorem create_subject_duplicate_code_witness:
  "create_subject create_document demo_env (Some demo_db) ''CS101'' ''CS2'' ''Another title'' None
     = (Inl (HTTPException 400 ''Subject code exists''), Some demo_db)"
proof -
  have m: "(demo_id 1, subject_dump ''CS101'' ''CS'' ''Computer Science Basics'' (Some [''Algorithms'']))
       \<in> set (demo_db ''subject'')"
    by (simp add: demo_db_def)
  have c: "dict_get (snd (demo_id 1, subject_dump ''CS101'' ''CS'' ''Computer Science Basics''
              (Some [''Algorithms'']))) ''code'' = VStr ''CS101''"
    by (simp add: subject_dump_def dict_get_def)
  from create_subject_duplicate_code [where d = demo_db, OF m c] show ?thesis .
qed

text \<open>
  C8. When the student record that login resolves has a true \<^verbatim>\<open>is_admin\<close>, a password
  other than the configured \<^verbatim>\<open>ADMIN_PASSWORD\<close> (or none) fails with 401, and the
  configured password gives a response whose role is \<^verbatim>\<open>"admin"\<close>.
\<close>

theorem login_admin_password:
  assumes "login_resolve cd e d (normalise e roll_number) = (Inr (Some stu), d')"
    and "truthy (dict_get (snd stu) ''is_admin'')"
  shows "(password \<noteq> Some (ADMIN_PASSWORD e) \<longrightarrow>
            login cd e (Some d) roll_number password
              = (Inl (HTTPException 401 ''Admin password required or incorrect''), Some d'))
       \<and> (password = Some (ADMIN_PASSWORD e) \<longrightarrow>
            (\<exists>resp. login cd e (Some d) roll_number password = (Inr resp, Some d')
               \<and> dict_get resp ''role'' = VStr ''admin''))"
  using assms
  by (simp add: login_def require_db_def Let_def login_response_def dict_get_def)

theorem login_admin_password_witness:
  "login create_document demo_env (Some demo_db) ''admin'' (Some ''letmein'')
     = (Inl (HTTPException 401 ''Admin password required or incorrect''), Some demo_db)
   \<and> login create_document demo_env (Some demo_db) ''admin'' None
     = (Inl (HTTPException 401 ''Admin password required or incorrect''), Some demo_db)
   \<and> (\<exists>resp. login create_document demo_env (Some demo_db) ''admin'' (Some ''admin123'')
               = (Inr resp, Some demo_db)
          \<and> dict_get resp ''role'' = VStr ''admin'')"
proof -
  let ?stu = "(demo_id 1, [''roll_number'' \<mapsto> VStr ''ADMIN'', ''name'' \<mapsto> VStr ''Administrator'',
              ''is_admin'' \<mapsto> VBool True, ''is_active'' \<mapsto> VBool True])"
  have r: "login_resolve create_document demo_env demo_db (normalise demo_env ''admin'')
             = (Inr (Some ?stu), demo_db)"
    by (simp add: adm login_resolve_def find_one_def field_eq_def demo_db_def dict_get_def)
  have t: "truthy (dict_get (snd ?stu) ''is_admin'')"
    by (simp add: dict_get_def)
  show ?thesis
    using login_admin_password [where d = demo_db, OF r t, of "Some ''letmein''"]
      login_admin_password [where d = demo_db, OF r t, of None]
      login_admin_password [where d = demo_db, OF r t, of "Some ''admin123''"]
    by (simp add: demo_env_def)
qed

text \<open>
  C9. In \<^verbatim>\<open>GET /api/presentations/my\<close> a presentation assigned to the roll number whose
  status is not \<^verbatim>\<open>"completed"\<close> (\<^verbatim>\<open>"revoked"\<close>, or no status at all) is in the
  \<open>upcoming\<close> list and not in the \<open>completed\<close> list; the \<open>completed\<close> list holds
  only documents whose status is exactly \<^verbatim>\<open>"completed"\<close>.
\<close>

theorem my_presentations_upcoming_unless_completed:
  assumes "my_presentations e (Some d) roll_number = (Inr r, db')"
    and "sd \<in> set (d ''presentation'')"
    and "field_eq ''assigned_to'' (VStr (normalise e roll_number)) sd"
  shows "(dict_get (snd sd) ''status'' \<noteq> VStr ''completed'' \<longrightarrow>
            public sd \<in> set (upcoming r) \<and> public sd \<notin> set (completed r))
       \<and> (dict_get (snd sd) ''status'' = VStr ''revoked'' \<longrightarrow> public sd \<in> set (upcoming r))
       \<and> (public sd \<in> set (completed r) \<longleftrightarrow> dict_get (snd sd) ''status'' = VStr ''completed'')
       \<and> (\<forall>doc \<in> set (completed r). dict_get doc ''status'' = VStr ''completed'')
       \<and> (\<forall>doc \<in> set (upcoming r). dict_get doc ''status'' \<noteq> VStr ''completed'')"
proof -
  have mem: "public sd \<in> set (map public (find_all (d ''presentation'')
                  (field_eq ''assigned_to'' (VStr (normalise e roll_number)))))"
    using assms(2,3) by (simp add: find_all_def)
  have r: "r = \<lparr>upcoming = filter (\<lambda>doc. dict_get doc ''status'' \<noteq> VStr ''completed'')
               (map public (find_all (d ''presentation'')
                  (field_eq ''assigned_to'' (VStr (normalise e roll_number))))),
            completed = filter (\<lambda>doc. dict_get doc ''status'' = VStr ''completed'')
               (map public (find_all (d ''presentation'')
                  (field_eq ''assigned_to'' (VStr (normalise e roll_number)))))\<rparr>"
    using assms(1) by (simp add: my_presentations_Some)
  show ?thesis
    using mem unfolding r by (auto simp: status_public)
qed

theorem my_presentations_upcoming_unless_completed_witness:
  "public (demo_id 3, demo_presentation ''Hash Tables'' (VStr ''A1'') (VStr ''revoked''))
     \<in> set (upcoming (projr (fst (my_presentations demo_env (Some demo_db) ''a1 ''))))
   \<and> public (demo_id 4, presentation_dump ''CS101'' ''CS'' ''Heaps'' (Some ''A1'') None None)
     \<in> set (upcoming (projr (fst (my_presentations demo_env (Some demo_db) ''a1 ''))))
   \<and> public (demo_id 2, demo_presentation ''Big-O Notation'' (VStr ''A1'') (VStr ''completed''))
     \<in> set (completed (projr (fst (my_presentations demo_env (Some demo_db) ''a1 ''))))"
proof -
  obtain r where r: "my_presentations demo_env (Some demo_db) ''a1 '' = (Inr r, Some demo_db)"
    by (simp add: my_presentations_Some)
  have p: "demo_db ''presentation'' =
        [(demo_id 1, demo_presentation ''Sorting Algorithms'' (VStr ''A1'') (VStr ''upcoming'')),
         (demo_id 2, demo_presentation ''Big-O Notation'' (VStr ''A1'') (VStr ''completed'')),
         (demo_id 3, demo_presentation ''Hash Tables'' (VStr ''A1'') (VStr ''revoked'')),
         (demo_id 4, presentation_dump ''CS101'' ''CS'' ''Heaps'' (Some ''A1'') None None),
         (demo_id 5, demo_presentation ''Tries'' VNone (VStr ''upcoming''))]"
    by (simp add: demo_db_def)
  have "public (demo_id 3, demo_presentation ''Hash Tables'' (VStr ''A1'') (VStr ''revoked'')) \<in> set (upcoming r)"
    using my_presentations_upcoming_unless_completed [OF r,
        of "(demo_id 3, demo_presentation ''Hash Tables'' (VStr ''A1'') (VStr ''revoked''))"]
    by (simp add: p a1 demo_presentation_def dict_get_def field_eq_def)
  moreover have "public (demo_id 4, presentation_dump ''CS101'' ''CS'' ''Heaps'' (Some ''A1'') None None) \<in> set (upcoming r)"
    using my_presentations_upcoming_unless_completed [OF r,
        of "(demo_id 4, presentation_dump ''CS101'' ''CS'' ''Heaps'' (Some ''A1'') None None)"]
    by (simp add: p a1 presentation_dump_def dict_get_def opt_str_def field_eq_def)
  moreover have "public (demo_id 2, demo_presentation ''Big-O Notation'' (VStr ''A1'') (VStr ''completed'')) \<in> set (completed r)"
    using my_presentations_upcoming_unless_completed [OF r,
        of "(demo_id 2, demo_presentation ''Big-O Notation'' (VStr ''A1'') (VStr ''completed''))"]
    by (simp add: p a1 demo_presentation_def dict_get_def field_eq_def)
  ultimately show ?thesis
    by (simp add: r)
qed


text \<open>
  C1. With the adapter's insert, a login whose roll number (trimmed and upper-cased) no
  stored student has appends exactly one student record with that roll number,
  \<^verbatim>\<open>is_admin\<close> false and \<^verbatim>\<open>is_active\<close> true, and changes nothing else; a second login
  with the same roll number finds that record and leaves the store as it is, so exactly
  one student with that roll number exists after the two logins.
\<close>

theorem login_twice_one_student:
  assumes "students_with d (normalise e roll_number) = []"
  shows "\<exists>i d1. snd (login create_document e (Some d) roll_number pw1) = Some d1
     \<and> d1 = d(''student'' := d ''student'' @ [(i, new_student (normalise e roll_number))])
     \<and> d1 ''student'' = d ''student'' @ [(i, new_student (normalise e roll_number))]
     \<and> students_with d1 (normalise e roll_number) = [(i, new_student (normalise e roll_number))]
     \<and> dict_get (new_student (normalise e roll_number)) ''is_admin'' = VBool False
     \<and> dict_get (new_student (normalise e roll_number)) ''is_active'' = VBool True
     \<and> snd (login create_document e (Some d1) roll_number pw2) = Some d1"
proof -
  let ?roll = "normalise e roll_number"
  let ?i = "fresh_id (d ''student'')"
  let ?d1 = "d(''student'' := d ''student'' @ [(?i, new_student ?roll)])"
  have none: "find_one (d ''student'') (field_eq ''roll_number'' (VStr ?roll)) = None"
    using assms by (simp add: students_with_def find_all_empty)
  have first: "snd (login create_document e (Some d) roll_number pw1) = Some ?d1"
    using login_first [where d = d, OF none] .
  have st: "?d1 ''student'' = d ''student'' @ [(?i, new_student ?roll)]"
    by simp
  have one: "students_with ?d1 ?roll = [(?i, new_student ?roll)]"
    unfolding students_with_def st by (rule find_all_append_new [OF none new_student_roll])
  have found: "find_one (?d1 ''student'') (field_eq ''roll_number'' (VStr ?roll))
      = Some (?i, new_student ?roll)"
    unfolding st by (rule find_one_append_new [OF none new_student_roll])
  have second: "snd (login create_document e (Some ?d1) roll_number pw2) = Some ?d1"
    using login_known [where d = "?d1", OF found] .
  have flags: "dict_get (new_student ?roll) ''is_admin'' = VBool False
      \<and> dict_get (new_student ?roll) ''is_active'' = VBool True"
    by (simp add: new_student_def dict_get_def)
  show ?thesis
    using first st one second flags by blast
qed

theorem login_twice_one_student_witness:
  "\<exists>i d1. snd (login create_document demo_env (Some demo_db) '' b2 '' None) = Some d1
     \<and> students_with d1 ''B2'' = [(i, new_student ''B2'')]
     \<and> snd (login create_document demo_env (Some d1) '' b2 '' None) = Some d1"
proof -
  have h: "students_with demo_db (normalise demo_env '' b2 '') = []"
    by (simp add: b2 students_with_def find_all_def field_eq_def demo_db_def new_student_def
        dict_get_def)
  from login_twice_one_student [where d = demo_db and e = demo_env, OF h, of None None]
  show ?thesis
    unfolding b2 by blast
qed

text \<open>
  C5. The only write to the Meta collection is the insert of line 348, so in every store
  this program writes each Meta record with key \<^verbatim>\<open>synced\<close> holds \<^verbatim>\<open>"true"\<close>. On such a
  store, and with the adapter's insert, two calls of \<^verbatim>\<open>POST /api/admin/sync\<close> in succession
  both answer \<^verbatim>\<open>synced: true\<close>; after them the store holds a Meta record with key
  \<^verbatim>\<open>synced\<close> and value \<^verbatim>\<open>"true"\<close>, which is the one the handler finds; and the second
  call leaves the store exactly as the first one left it.
\<close>

theorem sync_twice:
  assumes "\<forall>sd \<in> set (d ''meta''). field_eq ''key'' (VStr ''synced'') sd
                                 \<longrightarrow> dict_get (snd sd) ''value'' = VStr ''true''"
  shows "\<exists>r1 d1 r2.
      sync_presentations create_document (Some d) = (Inr r1, Some d1)
    \<and> sync_presentations create_document (Some d1) = (Inr r2, Some d1)
    \<and> dict_get r1 ''synced'' = VBool True \<and> dict_get r2 ''synced'' = VBool True
    \<and> already_synced d1
    \<and> (\<exists>sd \<in> set (d1 ''meta''). field_eq ''key'' (VStr ''synced'') sd
                                 \<and> dict_get (snd sd) ''value'' = VStr ''true'')"
proof -
  let ?ok = "[''synced'' \<mapsto> VBool True]"
  let ?already = "[''synced'' \<mapsto> VBool True, ''message'' \<mapsto> VStr ''Already synced'']"
  have ok: "dict_get ?ok ''synced'' = VBool True" "dict_get ?already ''synced'' = VBool True"
    by (simp_all add: dict_get_def)
  show ?thesis
  proof (cases "already_synced d")
    case True
    from sync_when_synced [OF True, of create_document] already_synced_record [OF True] ok True
    show ?thesis by blast
  next
    case False
    let ?d1 = "d(''meta'' := d ''meta'' @ [(fresh_id (d ''meta''), synced_meta)])"
    have s1: "sync_presentations create_document (Some d) = (Inr ?ok, Some ?d1)"
      by (rule sync_when_not_synced [OF False])
    have a1: "already_synced ?d1"
      using already_synced_after_insert
        [where d = d, OF not_synced_no_record [where d = d, OF False assms]] .
    have s2: "sync_presentations create_document (Some ?d1) = (Inr ?already, Some ?d1)"
      by (rule sync_when_synced [OF a1])
    from s1 s2 ok a1 already_synced_record [OF a1] show ?thesis
      by blast
  qed
qed

theorem sync_twice_witness:
  "\<exists>r1 d1 r2.
      sync_presentations create_document (Some demo_db) = (Inr r1, Some d1)
    \<and> sync_presentations create_document (Some d1) = (Inr r2, Some d1)
    \<and> dict_get r1 ''synced'' = VBool True \<and> dict_get r2 ''synced'' = VBool True
    \<and> already_synced d1"
proof -
  have h: "\<forall>sd \<in> set (demo_db ''meta''). field_eq ''key'' (VStr ''synced'') sd
                                 \<longrightarrow> dict_get (snd sd) ''value'' = VStr ''true''"
    by (simp add: demo_db_def)
  from sync_twice [where d = demo_db, OF h] show ?thesis
    by blast
qed

text \<open>
  C7, as the claim states it, fails for an identifier that \<^verbatim>\<open>ObjectId\<close> refuses: the string
  \<^verbatim>\<open>nope\<close> is the identifier of neither listed message, and deleting by it fails with 400
  \<open>Invalid ID\<close>, not with 404.
\<close>

theorem delete_unparsable_id_is_bad_request:
  "delete_message demo_env (Some demo_db) ''nope''
     = (Inl (HTTPException 400 ''Invalid ID''), Some demo_db)
   \<and> list_messages (Some demo_db)
     = (Inr [public (demo_id 10, message_dump Message ''Welcome'' ''Hello'' None),
             public (demo_id 11, message_dump Alert ''Exam'' ''Monday'' (Some ''ADMIN''))],
        Some demo_db)
   \<and> dict_get (public (demo_id 10, message_dump Message ''Welcome'' ''Hello'' None)) ''id''
       = VStr ''00000000000000000000000a''
   \<and> dict_get (public (demo_id 11, message_dump Alert ''Exam'' ''Monday'' (Some ''ADMIN''))) ''id''
       = VStr ''00000000000000000000000b''"
proof -
  have "delete_message demo_env (Some demo_db) ''nope''
     = (Inl (HTTPException 400 ''Invalid ID''), Some demo_db)"
    by (simp add: delete_message_def require_db_def oid_def nope demo_env_def)
  moreover have "list_messages (Some demo_db)
     = (Inr [public (demo_id 10, message_dump Message ''Welcome'' ''Hello'' None),
             public (demo_id 11, message_dump Alert ''Exam'' ''Monday'' (Some ''ADMIN''))],
        Some demo_db)"
    by (simp add: list_messages_Some demo_messages created_at_key_def message_dump_def dict_get_def)
  ultimately show ?thesis
    by (simp add: public_id str_10 str_11)
qed

text \<open>
  C7, amended. With \<^verbatim>\<open>ObjectId\<close> imported, a store configured and the identifiers of the
  stored messages distinct (the store keeps \<^verbatim>\<open>_id\<close> unique): deleting by a string that
  \<^verbatim>\<open>ObjectId\<close> refuses fails with 400 \<open>Invalid ID\<close> and changes nothing; deleting by a
  string that denotes the identifier of no stored message fails with 404
  \<open>Message not found\<close> and changes nothing; deleting by a string that denotes the
  identifier of a stored message answers \<^verbatim>\<open>{deleted: true}\<close>, removes that message and no
  other, and no document of the next \<^verbatim>\<open>GET /api/messages\<close> listing carries that
  identifier.
\<close>

theorem delete_message_by_id:
  assumes "ObjectId_imported e" and "distinct (map fst (d ''message''))"
  shows "(case ObjectId message_id of
      None \<Rightarrow>
        delete_message e (Some d) message_id = (Inl (HTTPException 400 ''Invalid ID''), Some d)
    | Some i \<Rightarrow>
        (if i \<in> fst ` set (d ''message'')
         then \<exists>d' listing.
                delete_message e (Some d) message_id = (Inr [''deleted'' \<mapsto> VBool True], Some d')
              \<and> d' ''message'' = filter (\<lambda>sd. fst sd \<noteq> i) (d ''message'')
              \<and> list_messages (Some d') = (Inr listing, Some d')
              \<and> (\<forall>doc \<in> set listing. dict_get doc ''id'' \<noteq> VStr (str_oid i))
         else delete_message e (Some d) message_id
                = (Inl (HTTPException 404 ''Message not found''), Some d)))"
proof (cases "ObjectId message_id")
  case None
  with delete_message_malformed [OF assms(1) None, of d] show ?thesis
    by simp
next
  case (Some i)
  note parsed = delete_message_parsed [OF assms(1) Some, of d]
  show ?thesis
  proof (cases "i \<in> fst ` set (d ''message'')")
    case False
    then have "\<forall>sd \<in> set (d ''message''). \<not> id_eq i sd"
      by (auto simp: id_eq_def)
    then have "delete_one (d ''message'') (id_eq i) = (0, d ''message'')"
      by (rule delete_one_no_match)
    with parsed have "delete_message e (Some d) message_id
            = (Inl (HTTPException 404 ''Message not found''), Some d)"
      by simp
    with Some False show ?thesis
      by simp
  next
    case True
    let ?c' = "filter (\<lambda>sd. fst sd \<noteq> i) (d ''message'')"
    let ?d' = "d(''message'' := ?c')"
    let ?listing = "map public (rev (sort_key created_at_key (rev ?c')))"
    have "delete_one (d ''message'') (id_eq i) = (1, ?c')"
      using assms(2) True by (rule delete_one_by_id)
    with parsed have del: "delete_message e (Some d) message_id
        = (Inr [''deleted'' \<mapsto> VBool True], Some ?d')"
      by simp
    have lst: "list_messages (Some ?d') = (Inr ?listing, Some ?d')"
      using list_messages_Some [of ?d'] by simp
    have no: "dict_get doc ''id'' \<noteq> VStr (str_oid i)" if "doc \<in> set ?listing" for doc
    proof -
      from that obtain sd where sd: "fst sd \<noteq> i" and doc: "doc = public sd"
        by auto
      from sd have "str_oid (fst sd) \<noteq> str_oid i"
        using str_oid_inj by blast
      then show ?thesis
        by (simp add: doc public_id)
    qed
    have msg: "?d' ''message'' = ?c'"
      by simp
    from del msg lst no
    have "\<exists>d' listing.
                delete_message e (Some d) message_id = (Inr [''deleted'' \<mapsto> VBool True], Some d')
              \<and> d' ''message'' = ?c'
              \<and> list_messages (Some d') = (Inr listing, Some d')
              \<and> (\<forall>doc \<in> set listing. dict_get doc ''id'' \<noteq> VStr (str_oid i))"
      by blast
    with Some True show ?thesis
      by simp
  qed
qed

theorem delete_message_by_id_witness:
  "(\<exists>d'. delete_message demo_env (Some demo_db) ''00000000000000000000000a''
           = (Inr [''deleted'' \<mapsto> VBool True], Some d')
        \<and> d' ''message'' = [(demo_id 11, message_dump Alert ''Exam'' ''Monday'' (Some ''ADMIN''))]
        \<and> list_messages (Some d')
           = (Inr [public (demo_id 11, message_dump Alert ''Exam'' ''Monday'' (Some ''ADMIN''))], Some d'))
   \<and> delete_message demo_env (Some demo_db) ''0000000000000000000000FF''
       = (Inl (HTTPException 404 ''Message not found''), Some demo_db)
   \<and> delete_message demo_env (Some demo_db) ''nope''
       = (Inl (HTTPException 400 ''Invalid ID''), Some demo_db)"
proof -
  have imp: "ObjectId_imported demo_env"
    by (simp add: demo_env_def)
  have dist: "distinct (map fst (demo_db ''message''))"
    by (simp add: demo_messages demo_ids)
  note inst = delete_message_by_id [where d = demo_db and e = demo_env, OF imp dist]
  have one: "\<exists>d'. delete_message demo_env (Some demo_db) ''00000000000000000000000a''
           = (Inr [''deleted'' \<mapsto> VBool True], Some d')
        \<and> d' ''message'' = [(demo_id 11, message_dump Alert ''Exam'' ''Monday'' (Some ''ADMIN''))]
        \<and> list_messages (Some d')
           = (Inr [public (demo_id 11, message_dump Alert ''Exam'' ''Monday'' (Some ''ADMIN''))], Some d')"
    using inst [of "''00000000000000000000000a''"]
    by (auto simp: parse_0a demo_messages demo_ids list_messages_Some)
  have two: "delete_message demo_env (Some demo_db) ''0000000000000000000000FF''
       = (Inl (HTTPException 404 ''Message not found''), Some demo_db)"
    using inst [of "''0000000000000000000000FF''"]
    by (simp add: parse_ff demo_messages demo_ids)
  have three: "delete_message demo_env (Some demo_db) ''nope''
       = (Inl (HTTPException 400 ''Invalid ID''), Some demo_db)"
    using inst [of "''nope''"]
    by (simp add: nope)
  from one two three show ?thesis
    by blast
qed

text \<open>
  C2, as the claim states it, fails for the handlers that read: with no store configured
  \<^verbatim>\<open>GET /api/subjects\<close> answers the empty list and \<^verbatim>\<open>POST /api/admin/sync\<close> answers
  \<^verbatim>\<open>synced: false\<close>; neither raises 503.
\<close>

theorem no_store_reads_answer_empty:
  "list_subjects None = (Inr [], None)
   \<and> sync_presentations create_document None
       = (Inr [''synced'' \<mapsto> VBool False, ''message'' \<mapsto> VStr ''Database not configured''], None)"
  by (simp add: list_subjects_def sync_presentations_def)

text \<open>
  C2, amended. With no store configured, login and every handler that writes
  (create subject, create presentation, update status, assign, create message, delete
  message) raise 503 from \<^verbatim>\<open>require_db\<close> before anything else; the handlers that list
  (subjects, presentations, my presentations, messages) answer with empty lists and sync
  answers \<^verbatim>\<open>synced: false\<close>. None of them touches a store, and the handle stays
  unconfigured.
\<close>

theorem no_store_configured:
  "login cd e None roll_number password = (Inl unavailable, None)
   \<and> create_subject cd e None code acronym title syllabus = (Inl unavailable, None)
   \<and> create_presentation cd e None subject_code subject_acronym topic assigned_to due_date
        submission_link = (Inl unavailable, None)
   \<and> update_presentation_status e None presentation_id st now = (Inl unavailable, None)
   \<and> assign_topic e None presentation_id roll_number now = (Inl unavailable, None)
   \<and> create_message cd e None ty title body created_by = (Inl unavailable, None)
   \<and> delete_message e None message_id = (Inl unavailable, None)
   \<and> list_subjects None = (Inr [], None)
   \<and> list_presentations e None r = (Inr [], None)
   \<and> my_presentations e None roll_number = (Inr \<lparr>upcoming = [], completed = []\<rparr>, None)
   \<and> list_messages None = (Inr [], None)
   \<and> sync_presentations cd None
       = (Inr [''synced'' \<mapsto> VBool False, ''message'' \<mapsto> VStr ''Database not configured''], None)"
  by (simp add: unavailable_def require_db_def login_def create_subject_def
      create_presentation_def update_presentation_status_def assign_topic_def create_message_def
      delete_message_def list_subjects_def list_presentations_def my_presentations_def
      list_messages_def sync_presentations_def)


end
